theory Spec2Isabelle
  imports Complex_Main
begin

section \<open>Data model of the session controller (src/contexts/AuthContext.tsx)\<close>

text \<open>
  The \<^verbatim>\<open>User\<close> interface. The field \<^verbatim>\<open>id\<close> is written \<open>user_id\<close> and
  \<^verbatim>\<open>name\<close> is written \<open>user_name\<close>, the other fields keep their names.
\<close>

record user =
  user_id :: string
  email :: string
  user_name :: string
  role :: string
  designation :: string
  status :: string

text \<open>
  What an axios call can come back with. A response with a status outside 2xx rejects the
  promise with an error carrying \<^verbatim>\<open>error.response\<close>; a failure without any response
  (network down, timeout) rejects with \<^verbatim>\<open>error.response\<close> undefined and possibly an
  \<^verbatim>\<open>error.code\<close>. Of the response only \<^verbatim>\<open>status\<close> and
  \<^verbatim>\<open>data.message\<close> are ever inspected.
\<close>

record error_response =
  resp_status :: nat
  resp_message :: "string option"

record axios_error =
  err_code :: "string option"
  err_response :: "error_response option"

datatype 'a axios_result = Resolved 'a | Rejected axios_error

text \<open>A request that left the browser: verb, URL and the Authorization header it carried.\<close>

datatype request = Request string string "string option"

text \<open>
  The state the controller works on: the item \<^verbatim>\<open>token\<close> of \<^verbatim>\<open>localStorage\<close>,
  the entry \<^verbatim>\<open>axios.defaults.headers.common['Authorization']\<close>, the two React state
  cells of \<^verbatim>\<open>AuthProvider\<close>, and the requests issued so far, oldest first.
\<close>

record session =
  localStorage_token :: "string option"
  defaults_Authorization :: "string option"
  currentUser :: "user option"
  isLoading :: bool
  network :: "request list"

text \<open>
  What a call of \<^verbatim>\<open>jwtDecode\<close> ends in: it throws, or it returns the parsed payload.
  The payload is \<^verbatim>\<open>null\<close> when the token's payload is the JSON text \<^verbatim>\<open>null\<close>, and
  then reading \<^verbatim>\<open>decoded.exp\<close> throws. Of any other payload only \<^verbatim>\<open>exp\<close> is read:
  \<open>exp_claim\<close> is the number found there, read as the real number the double stands for,
  and \<open>None\<close> when the payload has no \<^verbatim>\<open>exp\<close>. An \<^verbatim>\<open>exp\<close> that is present is
  taken to be a number, as the library's \<^verbatim>\<open>JwtPayload\<close> type declares it.
\<close>

record jwt_payload =
  exp_claim :: "real option"

datatype decoded = DecodeThrows | DecodedNull | Decoded jwt_payload

text \<open>A thrown \<^verbatim>\<open>Error\<close> with its message.\<close>

datatype error = Error string

record login_body =
  body_token :: string
  body_user :: user

section \<open>The response interceptor and the shared request client\<close>

text \<open>
  The rejection handler installed with \<^verbatim>\<open>axios.interceptors.response.use\<close>: on
  \<^verbatim>\<open>error.response?.status === 401\<close> it removes the token, deletes the default
  header and clears the user; the error is rejected again in every case.
\<close>

definition response_interceptor :: "axios_error \<Rightarrow> session \<Rightarrow> session" where
  "response_interceptor e s =
     (if (case err_response e of None \<Rightarrow> False | Some r \<Rightarrow> resp_status r = 401)
      then s\<lparr>localStorage_token := None, defaults_Authorization := None, currentUser := None\<rparr>
      else s)"

text \<open>
  One call through the shared axios client. \<open>hdr\<close> is the Authorization header given in
  the call's own config, which takes precedence over the default one; \<open>res\<close> is what the
  server answers. The request is recorded, and a rejection passes through the interceptor
  before the caller's \<^verbatim>\<open>catch\<close> sees it.
\<close>

definition axios_request ::
  "string \<Rightarrow> string \<Rightarrow> string option \<Rightarrow> 'a axios_result \<Rightarrow> session \<Rightarrow> 'a axios_result \<times> session" where
  "axios_request verb url hdr res s =
     (let sent = (case hdr of Some h \<Rightarrow> Some h | None \<Rightarrow> defaults_Authorization s);
          s1 = s\<lparr>network := network s @ [Request verb url sent]\<rparr>
      in case res of
           Resolved d \<Rightarrow> (Resolved d, s1)
         | Rejected e \<Rightarrow> (Rejected e, response_interceptor e s1))"

section \<open>Operations of AuthProvider\<close>

definition fetchUserData :: "user axios_result \<Rightarrow> session \<Rightarrow> session" where
  "fetchUserData res s =
     (case axios_request ''GET'' ''/api/auth/user'' None res s of
        (Resolved d, s1) \<Rightarrow> s1\<lparr>currentUser := Some d\<rparr>
      | (Rejected e, s1) \<Rightarrow>
          s1\<lparr>localStorage_token := None, defaults_Authorization := None, currentUser := None\<rparr>)"

text \<open>
  \<^verbatim>\<open>initializeAuth\<close>. \<open>jwtDecode\<close> stands for the library function, \<open>currentTime\<close> for
  the double that \<^verbatim>\<open>Date.now() / 1000\<close> evaluates to, read as a real number, and \<open>res\<close>
  for the answer to the profile fetch. \<^verbatim>\<open>if (token)\<close> is false for \<^verbatim>\<open>null\<close> and for
  the empty string. Everything from the call of \<^verbatim>\<open>jwtDecode\<close> on sits in one
  \<^verbatim>\<open>try\<close>, so a throw of \<^verbatim>\<open>jwtDecode\<close> and a throw of \<^verbatim>\<open>decoded.exp\<close> on a
  \<^verbatim>\<open>null\<close> payload end in the same \<^verbatim>\<open>catch\<close>. \<^verbatim>\<open>decoded.exp && ...\<close> is false
  when \<^verbatim>\<open>exp\<close> is missing and when it is \<open>0\<close>; the comparison of the two doubles is
  the comparison of the numbers they stand for.
\<close>

definition initializeAuth ::
  "(string \<Rightarrow> decoded) \<Rightarrow> real \<Rightarrow> user axios_result \<Rightarrow> session \<Rightarrow> session" where
  "initializeAuth jwtDecode currentTime res s =
     (let s' =
        (case localStorage_token s of
           None \<Rightarrow> s
         | Some token \<Rightarrow>
             if token = [] then s
             else
               (case jwtDecode token of
                  DecodeThrows \<Rightarrow>
                    s\<lparr>localStorage_token := None, defaults_Authorization := None,
                      currentUser := None\<rparr>
                | DecodedNull \<Rightarrow>
                    s\<lparr>localStorage_token := None, defaults_Authorization := None,
                      currentUser := None\<rparr>
                | Decoded decoded \<Rightarrow>
                    if (case exp_claim decoded of
                          None \<Rightarrow> False
                        | Some e \<Rightarrow> e \<noteq> 0 \<and> e < currentTime)
                    then s\<lparr>localStorage_token := None, currentUser := None\<rparr>
                    else fetchUserData res
                           (s\<lparr>defaults_Authorization := Some (''Bearer '' @ token)\<rparr>)))
      in s'\<lparr>isLoading := False\<rparr>)"

text \<open>
  \<^verbatim>\<open>login\<close>: \<open>Inr ()\<close> when the promise resolves, \<open>Inl\<close> the thrown error otherwise.
  \<^verbatim>\<open>error.response?.data?.message\<close> is falsy when missing and when empty.
\<close>

definition login ::
  "string \<Rightarrow> string \<Rightarrow> login_body axios_result \<Rightarrow> session \<Rightarrow> (error + unit) \<times> session" where
  "login email_in password res s =
     (case axios_request ''POST'' ''/api/auth/login'' None res s of
        (Resolved d, s1) \<Rightarrow>
          (Inr (),
           s1\<lparr>localStorage_token := Some (body_token d),
              defaults_Authorization := Some (''Bearer '' @ body_token d),
              currentUser := Some (body_user d)\<rparr>)
      | (Rejected e, s1) \<Rightarrow>
          (Inl (case err_response e of
                  None \<Rightarrow> Error ''Failed to login. Please check your credentials.''
                | Some r \<Rightarrow>
                    if resp_status r = 403 then Error ''Your account is pending approval''
                    else (case resp_message r of
                            None \<Rightarrow> Error ''Failed to login. Please check your credentials.''
                          | Some m \<Rightarrow>
                              if m \<noteq> [] then Error m
                              else Error ''Failed to login. Please check your credentials.'')),
           s1))"

definition register ::
  "string \<Rightarrow> string \<Rightarrow> string \<Rightarrow> string \<Rightarrow> unit axios_result \<Rightarrow> session \<Rightarrow> (error + unit) \<times> session" where
  "register name_in email_in password designation_in res s =
     (case axios_request ''POST'' ''/api/auth/register'' None res s of
        (Resolved d, s1) \<Rightarrow> (Inr (), s1)
      | (Rejected e, s1) \<Rightarrow>
          (Inl (case err_response e of
                  None \<Rightarrow> Error ''Failed to register. Please try again.''
                | Some r \<Rightarrow>
                    (case resp_message r of
                       None \<Rightarrow> Error ''Failed to register. Please try again.''
                     | Some m \<Rightarrow>
                         if m \<noteq> [] then Error m
                         else Error ''Failed to register. Please try again.'')),
           s1))"

definition logout :: "session \<Rightarrow> session" where
  "logout s = s\<lparr>localStorage_token := None, defaults_Authorization := None, currentUser := None\<rparr>"

text \<open>The two derived flags of the context value.\<close>

definition isAuthenticated :: "session \<Rightarrow> bool" where
  "isAuthenticated s = (case currentUser s of None \<Rightarrow> False | Some u \<Rightarrow> status u = ''approved'')"

definition isAdmin :: "session \<Rightarrow> bool" where
  "isAdmin s = (case currentUser s of None \<Rightarrow> False | Some u \<Rightarrow> role u = ''admin'')"

section \<open>Route guards\<close>

datatype element = LoadingScreen | Outlet | Navigate string

text \<open>\<^verbatim>\<open>AdminRoute\<close> (components/guards/AdminRoute).\<close>

definition AdminRoute :: "session \<Rightarrow> element" where
  "AdminRoute s =
     (if isLoading s then LoadingScreen
      else if isAdmin s then Outlet else Navigate ''/dashboard'')"

section \<open>View functions that call the API\<close>

text \<open>
  Outside \<^verbatim>\<open>AuthContext.tsx\<close> sixteen functions of the views call the API. The views
  keep their own React state (loading flag, error text, fetched data, toasts); of a view
  function the model keeps what it does to the shared session and to the network, and
  returns the session. \<^verbatim>\<open>fetchClassifications\<close> and \<^verbatim>\<open>fetchDashboardData\<close>
  return in addition the outcome their view stores.

  \<^verbatim>\<open>window.fetch\<close> knows neither the axios defaults nor the axios interceptors: the
  request carries the headers given in the call and nothing happens to the session.
\<close>

definition fetch_request :: "string \<Rightarrow> string option \<Rightarrow> session \<Rightarrow> session" where
  "fetch_request url hdr s = s\<lparr>network := network s @ [Request ''GET'' url hdr]\<rparr>"

text \<open>
  What a \<^verbatim>\<open>fetch\<close> whose body is then read comes back with: an \<^verbatim>\<open>ok\<close> response
  with its parsed body, a response that is not \<^verbatim>\<open>ok\<close> with its status, or a failure: the
  promise rejects, or the body of an \<^verbatim>\<open>ok\<close> response cannot be parsed or is
  \<^verbatim>\<open>null\<close>, so that the function throws before it uses the body.
\<close>

datatype 'a fetch_result = FetchOk 'a | FetchNotOk nat | FetchFailed

text \<open>
  The body of a classification record; only \<^verbatim>\<open>imageUrl\<close> is looked at here, and it is
  empty when the body has none.
\<close>

record classification_data =
  imageUrl :: string

subsection \<open>ClassificationResult\<close>

text \<open>
  \<^verbatim>\<open>fetchResult\<close>, for the route parameter \<open>cid\<close>. A response that is not
  \<^verbatim>\<open>ok\<close> makes the function throw whatever its status is. A failure of the image fetch
  is caught and only logged, so its answer plays no role.
\<close>

definition fetchResult ::
  "string \<Rightarrow> classification_data fetch_result \<Rightarrow> session \<Rightarrow> session" where
  "fetchResult cid res s =
     (case localStorage_token s of
        None \<Rightarrow> s
      | Some token \<Rightarrow>
          if token = [] then s
          else
            (let s1 = fetch_request (''/api/classification/'' @ cid) (Some (''Bearer '' @ token)) s
             in case res of
                  FetchFailed \<Rightarrow> s1
                | FetchNotOk code \<Rightarrow> s1
                | FetchOk data \<Rightarrow>
                    if imageUrl data \<noteq> []
                    then fetch_request (imageUrl data) (Some (''Bearer '' @ token)) s1
                    else s1))"


subsection \<open>ClassificationHistory, UploadImage, AdminDashboard\<close>




subsection \<open>ClassifyPatient\<close>




definition fetchClassificationDetails ::
  "string \<Rightarrow> classification_data option axios_result \<Rightarrow> session \<Rightarrow> session" where
  "fetchClassificationDetails classificationId res s =
     (case localStorage_token s of
        None \<Rightarrow> s
      | Some token \<Rightarrow>
          if token = [] then s
          else
            (case axios_request ''GET'' (''/api/classification/'' @ classificationId)
                    (Some (''Bearer '' @ token)) res s of
               (Rejected e, s1) \<Rightarrow> s1
             | (Resolved None, s1) \<Rightarrow> s1
             | (Resolved (Some data), s1) \<Rightarrow>
                 if imageUrl data \<noteq> []
                 then fetch_request (imageUrl data) (Some (''Bearer '' @ token)) s1
                 else s1))"


subsection \<open>ManageUsers\<close>




subsection \<open>Classify\<close>




subsection \<open>Dashboard\<close>

text \<open>
  The retry loop of \<^verbatim>\<open>fetchDashboardData\<close> of the Dashboard view, entered with
  \<open>retryCount\<close>. \<open>res i\<close> is the answer to attempt \<open>i\<close>; a resolved answer carries
  \<open>True\<close> when \<^verbatim>\<open>response.data\<close> is present with the four required fields. An
  answer that fails that check throws a plain \<^verbatim>\<open>Error\<close> inside the attempt, which the
  attempt's own \<^verbatim>\<open>catch\<close> counts like any other failure. The result is \<open>Inl\<close> the
  error thrown out of the loop, or \<open>Inr ()\<close> when the loop is left normally. The delay
  between two attempts is not part of the model.
\<close>

definition maxRetries :: nat where
  "maxRetries = 3"

function retry_loop ::
  "string \<Rightarrow> (nat \<Rightarrow> bool axios_result) \<Rightarrow> nat \<Rightarrow> session \<Rightarrow> (axios_error + unit) \<times> session" where
  "retry_loop token res retryCount s =
     (if retryCount < maxRetries then
        (case axios_request ''GET'' ''/api/dashboard/statistics'' (Some (''Bearer '' @ token))
                (res retryCount) s of
           (Resolved valid, s1) \<Rightarrow>
             if valid then (Inr (), s1)
             else if retryCount + 1 = maxRetries
               then (Inl \<lparr>err_code = None, err_response = None\<rparr>, s1)
               else retry_loop token res (retryCount + 1) s1
         | (Rejected e, s1) \<Rightarrow>
             if (case err_response e of None \<Rightarrow> False | Some r \<Rightarrow> resp_status r = 401)
             then (Inl e, s1)
             else if retryCount + 1 = maxRetries then (Inl e, s1)
             else retry_loop token res (retryCount + 1) s1)
      else (Inr (), s))"
  by pat_completeness auto
termination
  by (relation "measure (\<lambda>(token, res, retryCount, s). maxRetries - retryCount)") auto

datatype dashboard_outcome = StatsLoaded | RedirectLogin | ShowError string

text \<open>The outer \<^verbatim>\<open>catch\<close> of \<^verbatim>\<open>fetchDashboardData\<close>.\<close>

definition dashboard_catch :: "axios_error \<Rightarrow> dashboard_outcome" where
  "dashboard_catch e =
     (if (case err_response e of None \<Rightarrow> False | Some r \<Rightarrow> resp_status r = 401)
        then RedirectLogin
      else if (case err_response e of None \<Rightarrow> False | Some r \<Rightarrow> resp_status r = 403)
        then ShowError ''You do not have permission to access the dashboard''
      else if err_code e = Some ''ECONNABORTED''
        then ShowError ''Request timed out. Please try again.''
      else (case err_response e of
              None \<Rightarrow> ShowError ''Failed to load dashboard data''
            | Some r \<Rightarrow>
                (case resp_message r of
                   None \<Rightarrow> ShowError ''Failed to load dashboard data''
                 | Some m \<Rightarrow>
                     if m \<noteq> [] then ShowError m
                     else ShowError ''Failed to load dashboard data'')))"

definition fetchDashboardData ::
  "(nat \<Rightarrow> bool axios_result) \<Rightarrow> session \<Rightarrow> dashboard_outcome \<times> session" where
  "fetchDashboardData res s =
     (case localStorage_token s of
        None \<Rightarrow> (dashboard_catch \<lparr>err_code = None, err_response = None\<rparr>, s)
      | Some token \<Rightarrow>
          if token = [] then (dashboard_catch \<lparr>err_code = None, err_response = None\<rparr>, s)
          else
            (case retry_loop token res 0 s of
               (Inl e, s1) \<Rightarrow> (dashboard_catch e, s1)
             | (Inr u, s1) \<Rightarrow> (StatsLoaded, s1)))"

section \<open>Reachable sessions\<close>

text \<open>
  When \<^verbatim>\<open>AuthProvider\<close> mounts, no user is held, \<^verbatim>\<open>isLoading\<close> is true, no default
  header is set and nothing has been sent; the stored token is whatever an earlier visit
  left. From there the session changes through \<^verbatim>\<open>initializeAuth\<close>, \<^verbatim>\<open>login\<close>,
  \<^verbatim>\<open>register\<close>, \<^verbatim>\<open>logout\<close>, and through any call a view makes with the shared
  axios client (whose rejection runs the interceptor) or with \<^verbatim>\<open>fetch\<close>.
\<close>

inductive reachable :: "session \<Rightarrow> bool" where
  mount: "currentUser s = None \<Longrightarrow> isLoading s \<Longrightarrow> defaults_Authorization s = None \<Longrightarrow>
            network s = [] \<Longrightarrow> reachable s"
| step_initializeAuth: "reachable s \<Longrightarrow> reachable (initializeAuth jwtDecode currentTime res s)"
| step_login: "reachable s \<Longrightarrow> reachable (snd (login email_in password res s))"
| step_register:
    "reachable s \<Longrightarrow> reachable (snd (register name_in email_in password designation_in res s))"
| step_logout: "reachable s \<Longrightarrow> reachable (logout s)"
| step_axios: "reachable s \<Longrightarrow> reachable (snd (axios_request verb url hdr (res :: unit axios_result) s))"
| step_fetch: "reachable s \<Longrightarrow> reachable (fetch_request url hdr s)"

text \<open>
  The invariant of the reachable sessions: whenever a user is held, a token is stored and the
  default credential is the bearer header built from that token.
\<close>

definition credential_bound :: "session \<Rightarrow> bool" where
  "credential_bound s =
     (case currentUser s of
        None \<Rightarrow> True
      | Some u \<Rightarrow>
          (case localStorage_token s of
             None \<Rightarrow> False
           | Some t \<Rightarrow> defaults_Authorization s = Some (''Bearer '' @ t)))"

section \<open>Readings used in the statements\<close>

text \<open>
  Whether an answer is a rejection with status 401, and the Authorization header of a
  recorded request.
\<close>

definition unauthorized :: "'a axios_result \<Rightarrow> bool" where
  "unauthorized res =
     (case res of
        Resolved d \<Rightarrow> False
      | Rejected e \<Rightarrow> (case err_response e of None \<Rightarrow> False | Some r \<Rightarrow> resp_status r = 401))"





section \<open>The calls of the view functions\<close>






section \<open>Sample values\<close>

text \<open>
  The session right after \<^verbatim>\<open>AuthProvider\<close> mounted with \<open>tok\<close> in storage, a user
  record with a given role and status, and a rejection that carries a response.
\<close>

definition mounted :: "string option \<Rightarrow> session" where
  "mounted tok = \<lparr>localStorage_token = tok, defaults_Authorization = None, currentUser = None,
                  isLoading = True, network = []\<rparr>"

definition account :: "string \<Rightarrow> string \<Rightarrow> user" where
  "account r st = \<lparr>user_id = ''7'', email = ''kim@lab.org'', user_name = ''Kim'', role = r,
                    designation = ''Doctor'', status = st\<rparr>"

definition answered :: "nat \<Rightarrow> string option \<Rightarrow> axios_error" where
  "answered code msg = \<lparr>err_code = None,
                         err_response = Some \<lparr>resp_status = code, resp_message = msg\<rparr>\<rparr>"

text \<open>A decoder that finds an expiry in 2027 in every token.\<close>

definition future_exp :: "string \<Rightarrow> decoded" where
  "future_exp t = Decoded \<lparr>exp_claim = Some 1800000000\<rparr>"

text \<open>
  Four more decoders: one that finds \<^verbatim>\<open>exp: 0\<close>, one that finds a payload without
  \<^verbatim>\<open>exp\<close>, one that throws on every token, and one that returns \<^verbatim>\<open>null\<close>, as
  \<^verbatim>\<open>jwtDecode\<close> does on the token \<^verbatim>\<open>e30.bnVsbA.x\<close>, whose payload part is the
  base64 text of \<^verbatim>\<open>null\<close>.
\<close>

definition zero_exp :: "string \<Rightarrow> decoded" where
  "zero_exp t = Decoded \<lparr>exp_claim = Some 0\<rparr>"

definition no_exp :: "string \<Rightarrow> decoded" where
  "no_exp t = Decoded \<lparr>exp_claim = None\<rparr>"

definition undecodable :: "string \<Rightarrow> decoded" where
  "undecodable t = DecodeThrows"

definition null_payload :: "string \<Rightarrow> decoded" where
  "null_payload t = DecodedNull"

text \<open>A server that cannot be reached: every attempt is rejected without a response.\<close>

definition no_answers :: "nat \<Rightarrow> bool axios_result" where
  "no_answers i = Rejected \<lparr>err_code = None, err_response = None\<rparr>"

section \<open>Equations for the request primitives\<close>

lemma axios_request_Resolved:
  "axios_request verb url hdr (Resolved d) s
     = (Resolved d,
        s\<lparr>network := network s @
             [Request verb url (case hdr of Some h \<Rightarrow> Some h | None \<Rightarrow> defaults_Authorization s)]\<rparr>)"
  by (simp add: axios_request_def Let_def)

lemma axios_request_Rejected:
  "axios_request verb url hdr (Rejected e) s
     = (Rejected e,
        response_interceptor e
          (s\<lparr>network := network s @
             [Request verb url (case hdr of Some h \<Rightarrow> Some h | None \<Rightarrow> defaults_Authorization s)]\<rparr>))"
  by (simp add: axios_request_def Let_def)

lemma fetchUserData_Resolved:
  "fetchUserData (Resolved u) s
     = s\<lparr>currentUser := Some u,
         network := network s @ [Request ''GET'' ''/api/auth/user'' (defaults_Authorization s)]\<rparr>"
  by (simp add: fetchUserData_def axios_request_Resolved)

lemma fetchUserData_Rejected:
  "fetchUserData (Rejected e) s
     = s\<lparr>localStorage_token := None, defaults_Authorization := None, currentUser := None,
         network := network s @ [Request ''GET'' ''/api/auth/user'' (defaults_Authorization s)]\<rparr>"
  by (simp add: fetchUserData_def axios_request_Rejected response_interceptor_def)

section \<open>Forced invalidation and logout\<close>

text \<open>
  A rejection with status 401 of any request through the shared axios client makes the
  interceptor remove the persisted token, remove the default credential and clear the
  in-memory user, so the session is not authenticated afterwards; applying the interceptor's
  effect a second time changes nothing.
\<close>

lemma interceptor_clears_on_401:
  assumes "err_response e = Some r" and "resp_status r = 401"
  shows "response_interceptor e s
           = s\<lparr>localStorage_token := None, defaults_Authorization := None, currentUser := None\<rparr>
       \<and> localStorage_token (snd (axios_request verb url hdr (Rejected e :: 'a axios_result) s)) = None
       \<and> defaults_Authorization (snd (axios_request verb url hdr (Rejected e :: 'a axios_result) s)) = None
       \<and> currentUser (snd (axios_request verb url hdr (Rejected e :: 'a axios_result) s)) = None
       \<and> \<not> isAuthenticated (snd (axios_request verb url hdr (Rejected e :: 'a axios_result) s))
       \<and> response_interceptor e (response_interceptor e s) = response_interceptor e s"
  using assms by (simp add: axios_request_Rejected response_interceptor_def isAuthenticated_def)

text \<open>
  So \<^verbatim>\<open>fetchClassificationDetails\<close>, which asks for a classification record with axios,
  ends a logged-in session when the answer has status 401.
\<close>

lemma fetchClassificationDetails_401_logs_out:
  "fetchClassificationDetails ''5'' (Rejected (answered 401 (Some ''Token has expired'')))
     (snd (login ''kim@lab.org'' ''pw''
             (Resolved \<lparr>body_token = ''abc'', body_user = account ''user'' ''approved''\<rparr>)
             (mounted None)))
   = \<lparr>localStorage_token = None, defaults_Authorization = None, currentUser = None,
      isLoading = True,
      network = [Request ''POST'' ''/api/auth/login'' None,
                 Request ''GET'' ''/api/classification/5'' (Some ''Bearer abc'')]\<rparr>"
  by (simp add: fetchClassificationDetails_def login_def axios_request_Resolved
      axios_request_Rejected response_interceptor_def mounted_def answered_def)

text \<open>
  Claim C3 at a request that does not go through axios: \<^verbatim>\<open>fetchResult\<close> asks for the
  same record with \<^verbatim>\<open>fetch\<close>, which the interceptor never sees. After a login, an answer
  with status 401 leaves the token stored, the credential attached and the session
  authenticated, where the claim has all three removed.
\<close>

theorem C3_fetch_401_keeps_session:
  "fetchResult ''5'' (FetchNotOk 401)
     (snd (login ''kim@lab.org'' ''pw''
             (Resolved \<lparr>body_token = ''abc'', body_user = account ''user'' ''approved''\<rparr>)
             (mounted None)))
   = \<lparr>localStorage_token = Some ''abc'', defaults_Authorization = Some ''Bearer abc'',
      currentUser = Some (account ''user'' ''approved''), isLoading = True,
      network = [Request ''POST'' ''/api/auth/login'' None,
                 Request ''GET'' ''/api/classification/5'' (Some ''Bearer abc'')]\<rparr>
   \<and> isAuthenticated
       (fetchResult ''5'' (FetchNotOk 401)
          (snd (login ''kim@lab.org'' ''pw''
                  (Resolved \<lparr>body_token = ''abc'', body_user = account ''user'' ''approved''\<rparr>)
                  (mounted None))))"
  by (simp add: fetchResult_def fetch_request_def login_def axios_request_Resolved mounted_def
      isAuthenticated_def account_def)

text \<open>
  Claim C7. \<^verbatim>\<open>logout\<close> after \<^verbatim>\<open>logout\<close> is \<^verbatim>\<open>logout\<close>; it sends nothing; and on a
  session with no token, no default credential and no user it changes nothing.
\<close>

theorem C7_logout_idempotent:
  "logout (logout s) = logout s
   \<and> network (logout s) = network s
   \<and> (localStorage_token s = None \<and> defaults_Authorization s = None \<and> currentUser s = None
        \<longrightarrow> logout s = s)"
  by (simp add: logout_def)

theorem C7_witness:
  "logout \<lparr>localStorage_token = None, defaults_Authorization = None,
      currentUser = None, isLoading = False, network = [Request ''GET'' ''/api/auth/user'' None]\<rparr>
   = \<lparr>localStorage_token = None, defaults_Authorization = None,
      currentUser = None, isLoading = False, network = [Request ''GET'' ''/api/auth/user'' None]\<rparr>"
  using C7_logout_idempotent
    [of "\<lparr>localStorage_token = None, defaults_Authorization = None,
      currentUser = None, isLoading = False, network = [Request ''GET'' ''/api/auth/user'' None]\<rparr>"]
  by simp

section \<open>The admin guard\<close>

text \<open>
  Claim C9. Once the session is resolved, the admin guard sends an approved user of role
  \<^verbatim>\<open>user\<close> to \<^verbatim>\<open>/dashboard\<close> and not to the sign-in route \<^verbatim>\<open>/login\<close>, and it
  renders the guarded children whenever \<^verbatim>\<open>isAdmin\<close> holds.
\<close>

theorem C9_admin_guard:
  "(\<not> isLoading s \<and> currentUser s = Some u \<and> role u = ''user'' \<and> status u = ''approved''
      \<longrightarrow> isAuthenticated s \<and> AdminRoute s = Navigate ''/dashboard''
          \<and> AdminRoute s \<noteq> Navigate ''/login'')
   \<and> (\<not> isLoading s \<and> isAdmin s \<longrightarrow> AdminRoute s = Outlet)"
  by (simp add: AdminRoute_def isAdmin_def isAuthenticated_def)

theorem C9_witness:
  "AdminRoute \<lparr>localStorage_token = Some ''abc'', defaults_Authorization = Some ''Bearer abc'',
                currentUser = Some (account ''user'' ''approved''), isLoading = False,
                network = []\<rparr> = Navigate ''/dashboard''
   \<and> AdminRoute \<lparr>localStorage_token = Some ''abc'', defaults_Authorization = Some ''Bearer abc'',
                currentUser = Some (account ''admin'' ''approved''), isLoading = False,
                network = []\<rparr> = Outlet"
  using C9_admin_guard
      [of "\<lparr>localStorage_token = Some ''abc'', defaults_Authorization = Some ''Bearer abc'',
                currentUser = Some (account ''user'' ''approved''), isLoading = False,
                network = []\<rparr>" "account ''user'' ''approved''"]
    C9_admin_guard
      [of "\<lparr>localStorage_token = Some ''abc'', defaults_Authorization = Some ''Bearer abc'',
                currentUser = Some (account ''admin'' ''approved''), isLoading = False,
                network = []\<rparr>" "account ''admin'' ''approved''"]
  by (simp add: account_def isAdmin_def)

section \<open>Initialization\<close>

text \<open>
  Claim C10, as amended. When \<^verbatim>\<open>jwtDecode\<close> throws on the persisted token,
  initialization removes the token and the default credential, leaves no user, ends resolved
  and unauthenticated, and sends nothing; the same happens when \<^verbatim>\<open>jwtDecode\<close> returns
  \<^verbatim>\<open>null\<close>. A token that decodes to a payload other than \<^verbatim>\<open>null\<close> without
  \<^verbatim>\<open>exp\<close> gets its credential attached and goes on to the profile fetch.
\<close>

theorem C10_undecodable_token_fails_closed:
  assumes "localStorage_token s = Some t" and "t \<noteq> []"
  shows "(jwtDecode t = DecodeThrows \<or> jwtDecode t = DecodedNull \<longrightarrow>
            localStorage_token (initializeAuth jwtDecode currentTime res s) = None
          \<and> defaults_Authorization (initializeAuth jwtDecode currentTime res s) = None
          \<and> currentUser (initializeAuth jwtDecode currentTime res s) = None
          \<and> \<not> isAuthenticated (initializeAuth jwtDecode currentTime res s)
          \<and> \<not> isLoading (initializeAuth jwtDecode currentTime res s)
          \<and> network (initializeAuth jwtDecode currentTime res s) = network s)
       \<and> (jwtDecode t = Decoded d \<and> exp_claim d = None \<longrightarrow>
            initializeAuth jwtDecode currentTime res s
              = (fetchUserData res (s\<lparr>defaults_Authorization := Some (''Bearer '' @ t)\<rparr>))
                  \<lparr>isLoading := False\<rparr>
          \<and> network (initializeAuth jwtDecode currentTime res s)
              = network s @ [Request ''GET'' ''/api/auth/user'' (Some (''Bearer '' @ t))])"
  using assms
  by (cases res) (auto simp: initializeAuth_def fetchUserData_Resolved fetchUserData_Rejected
      isAuthenticated_def)

theorem C10_witness:
  "initializeAuth undecodable 1700000000 (Resolved (account ''user'' ''approved''))
     (mounted (Some ''abc''))
     = \<lparr>localStorage_token = None, defaults_Authorization = None, currentUser = None,
        isLoading = False, network = []\<rparr>
   \<and> network (initializeAuth no_exp 1700000000 (Resolved (account ''user'' ''approved''))
               (mounted (Some ''abc'')))
     = [Request ''GET'' ''/api/auth/user'' (Some ''Bearer abc'')]"
proof -
  have a: "localStorage_token (mounted (Some ''abc'')) = Some ''abc''"
    by (simp add: mounted_def)
  have b: "''abc'' \<noteq> []" by simp
  have "initializeAuth undecodable 1700000000 (Resolved (account ''user'' ''approved''))
     (mounted (Some ''abc''))
     = \<lparr>localStorage_token = None, defaults_Authorization = None, currentUser = None,
        isLoading = False, network = []\<rparr>"
    using C10_undecodable_token_fails_closed
        [where jwtDecode = undecodable and t = "''abc''" and s = "mounted (Some ''abc'')"
           and currentTime = 1700000000 and res = "Resolved (account ''user'' ''approved'')",
         OF a b]
    by (simp add: undecodable_def mounted_def)
  moreover have "network (initializeAuth no_exp 1700000000
               (Resolved (account ''user'' ''approved'')) (mounted (Some ''abc'')))
     = [Request ''GET'' ''/api/auth/user'' (Some ''Bearer abc'')]"
    using C10_undecodable_token_fails_closed
        [where jwtDecode = no_exp and t = "''abc''" and s = "mounted (Some ''abc'')"
           and d = "\<lparr>exp_claim = None\<rparr>" and currentTime = 1700000000
           and res = "Resolved (account ''user'' ''approved'')", OF a b]
    by (simp add: no_exp_def mounted_def fetchUserData_Resolved)
  ultimately show ?thesis by simp
qed

text \<open>
  The claim as stated fails: the token \<^verbatim>\<open>e30.bnVsbA.x\<close> decodes, to \<^verbatim>\<open>null\<close>, and
  carries no \<^verbatim>\<open>exp\<close>, but it is removed and no profile fetch is sent.
\<close>

theorem C10_counterexample:
  "initializeAuth null_payload 1700000000 (Resolved (account ''user'' ''approved''))
     (mounted (Some ''e30.bnVsbA.x''))
   = \<lparr>localStorage_token = None, defaults_Authorization = None, currentUser = None,
      isLoading = False, network = []\<rparr>"
  by (simp add: initializeAuth_def null_payload_def mounted_def)




text \<open>
  A token whose \<^verbatim>\<open>exp\<close> is not \<open>0\<close> and lies before the current time is removed, no user
  is held and nothing is sent.
\<close>

lemma initializeAuth_expired:
  assumes "localStorage_token s = Some t" and "t \<noteq> []" and "jwtDecode t = Decoded d"
    and "exp_claim d = Some e" and "e \<noteq> 0" and "e < currentTime"
  shows "initializeAuth jwtDecode currentTime res s
           = s\<lparr>localStorage_token := None, currentUser := None, isLoading := False\<rparr>"
  using assms by (simp add: initializeAuth_def)

text \<open>
  Claim C4 at a token whose \<^verbatim>\<open>exp\<close> is \<open>0\<close>, which lies in the past: the check
  \<^verbatim>\<open>decoded.exp && decoded.exp < currentTime\<close> takes the \<open>0\<close> for a missing claim, so
  the token is kept, the credential is attached and the profile is fetched; with an approved
  user in the answer the session ends authenticated.
\<close>

theorem C4_exp_zero_is_fetched:
  "initializeAuth zero_exp 1700000000 (Resolved (account ''user'' ''approved''))
     (mounted (Some ''abc''))
   = \<lparr>localStorage_token = Some ''abc'', defaults_Authorization = Some ''Bearer abc'',
      currentUser = Some (account ''user'' ''approved''), isLoading = False,
      network = [Request ''GET'' ''/api/auth/user'' (Some ''Bearer abc'')]\<rparr>
   \<and> isAuthenticated (initializeAuth zero_exp 1700000000
        (Resolved (account ''user'' ''approved'')) (mounted (Some ''abc'')))
   \<and> (0::real) < 1700000000"
  by (simp add: initializeAuth_def zero_exp_def mounted_def fetchUserData_Resolved
      isAuthenticated_def account_def)

section \<open>The invariant of reachable sessions\<close>

lemma bound_no_user: "currentUser s = None \<Longrightarrow> credential_bound s"
  by (simp add: credential_bound_def)

lemma bound_interceptor: "credential_bound s \<Longrightarrow> credential_bound (response_interceptor e s)"
  by (simp add: credential_bound_def response_interceptor_def)

lemma bound_network: "credential_bound (s\<lparr>network := n\<rparr>) = credential_bound s"
  by (simp add: credential_bound_def split: option.splits)

lemma bound_isLoading: "credential_bound (s\<lparr>isLoading := b\<rparr>) = credential_bound s"
  by (simp add: credential_bound_def split: option.splits)

lemma bound_axios_request:
  "credential_bound s \<Longrightarrow> credential_bound (snd (axios_request verb url hdr res s))"
  by (cases res)
     (simp_all add: axios_request_Resolved axios_request_Rejected bound_interceptor bound_network)

lemma bound_fetchUserData:
  "localStorage_token s = Some t \<Longrightarrow> defaults_Authorization s = Some (''Bearer '' @ t) \<Longrightarrow>
     credential_bound (fetchUserData res s)"
  by (cases res)
     (simp_all add: fetchUserData_Resolved fetchUserData_Rejected credential_bound_def)

lemma bound_initializeAuth:
  "credential_bound s \<Longrightarrow> credential_bound (initializeAuth jwtDecode currentTime res s)"
proof -
  assume inv: "credential_bound s"
  show ?thesis
  proof (cases "localStorage_token s")
    case None
    with inv show ?thesis by (simp add: initializeAuth_def bound_isLoading)
  next
    case (Some t)
    show ?thesis
    proof (cases "t = []")
      case True
      with Some inv show ?thesis by (simp add: initializeAuth_def bound_isLoading)
    next
      case False
      show ?thesis
      proof (cases "jwtDecode t")
        case DecodeThrows
        with Some False show ?thesis
          by (simp add: initializeAuth_def bound_isLoading bound_no_user)
      next
        case DecodedNull
        with Some False show ?thesis
          by (simp add: initializeAuth_def bound_isLoading bound_no_user)
      next
        case (Decoded d)
        have "credential_bound
                (fetchUserData res (s\<lparr>defaults_Authorization := Some (''Bearer '' @ t)\<rparr>))"
          using Some by (intro bound_fetchUserData [of _ t]) simp_all
        with Decoded False Some show ?thesis
          by (simp add: initializeAuth_def bound_isLoading bound_no_user)
      qed
    qed
  qed
qed

lemma bound_login: "credential_bound s \<Longrightarrow> credential_bound (snd (login e p res s))"
  by (cases res)
     (simp_all add: login_def axios_request_Resolved axios_request_Rejected bound_interceptor
        bound_network, simp add: credential_bound_def)

lemma bound_register:
  "credential_bound s \<Longrightarrow> credential_bound (snd (register n e p d res s))"
  by (cases res)
     (simp_all add: register_def axios_request_Resolved axios_request_Rejected bound_interceptor
        bound_network)

lemma bound_logout: "credential_bound (logout s)"
  by (simp add: logout_def credential_bound_def)

lemma bound_fetch_request: "credential_bound s \<Longrightarrow> credential_bound (fetch_request url hdr s)"
  by (simp add: fetch_request_def bound_network)

lemma reachable_bound: "reachable s \<Longrightarrow> credential_bound s"
proof (induction rule: reachable.induct)
  case (mount s)
  then show ?case by (simp add: bound_no_user)
next
  case (step_initializeAuth s jwtDecode currentTime res)
  then show ?case by (simp add: bound_initializeAuth)
next
  case (step_login s email_in password res)
  then show ?case by (simp add: bound_login)
next
  case (step_register s name_in email_in password designation_in res)
  then show ?case by (simp add: bound_register)
next
  case (step_logout s)
  show ?case by (rule bound_logout)
next
  case (step_axios s verb url hdr res)
  then show ?case by (simp add: bound_axios_request)
next
  case (step_fetch s url hdr)
  then show ?case by (simp add: bound_fetch_request)
qed

text \<open>
  Claim C2, as amended. In every reachable session in which \<^verbatim>\<open>isAdmin\<close> is true, a user
  of role \<^verbatim>\<open>admin\<close> is held, a token is stored and the default credential is the bearer
  header of that token; \<^verbatim>\<open>isAuthenticated\<close> holds there exactly when that user's status
  is \<^verbatim>\<open>approved\<close>, which \<^verbatim>\<open>isAdmin\<close> does not look at.
\<close>

theorem C2_isAdmin_in_reachable_sessions:
  assumes "reachable s" and "isAdmin s"
  shows "\<exists>u t. currentUser s = Some u \<and> role u = ''admin''
               \<and> localStorage_token s = Some t
               \<and> defaults_Authorization s = Some (''Bearer '' @ t)
               \<and> (isAuthenticated s \<longleftrightarrow> status u = ''approved'')"
proof -
  from \<open>isAdmin s\<close> obtain u where u: "currentUser s = Some u" "role u = ''admin''"
    by (auto simp: isAdmin_def split: option.splits)
  from \<open>reachable s\<close> have "credential_bound s" by (rule reachable_bound)
  with u obtain t where "localStorage_token s = Some t"
      "defaults_Authorization s = Some (''Bearer '' @ t)"
    by (auto simp: credential_bound_def split: option.splits)
  with u show ?thesis by (simp add: isAuthenticated_def)
qed

theorem C2_witness:
  "\<exists>u t. currentUser (snd (login ''kim@lab.org'' ''pw''
                  (Resolved \<lparr>body_token = ''abc'', body_user = account ''admin'' ''approved''\<rparr>)
                  (mounted None))) = Some u \<and> role u = ''admin''
      \<and> localStorage_token (snd (login ''kim@lab.org'' ''pw''
                  (Resolved \<lparr>body_token = ''abc'', body_user = account ''admin'' ''approved''\<rparr>)
                  (mounted None))) = Some t
      \<and> defaults_Authorization (snd (login ''kim@lab.org'' ''pw''
                  (Resolved \<lparr>body_token = ''abc'', body_user = account ''admin'' ''approved''\<rparr>)
                  (mounted None))) = Some (''Bearer '' @ t)
      \<and> (isAuthenticated (snd (login ''kim@lab.org'' ''pw''
                  (Resolved \<lparr>body_token = ''abc'', body_user = account ''admin'' ''approved''\<rparr>)
                  (mounted None))) \<longleftrightarrow> status u = ''approved'')"
proof -
  have "reachable (mounted None)"
    by (rule reachable.mount) (simp_all add: mounted_def)
  then have r: "reachable (snd (login ''kim@lab.org'' ''pw''
                  (Resolved \<lparr>body_token = ''abc'', body_user = account ''admin'' ''approved''\<rparr>)
                  (mounted None)))"
    by (rule reachable.step_login)
  have a: "isAdmin (snd (login ''kim@lab.org'' ''pw''
                  (Resolved \<lparr>body_token = ''abc'', body_user = account ''admin'' ''approved''\<rparr>)
                  (mounted None)))"
    by (simp add: isAdmin_def login_def axios_request_Resolved account_def)
  show ?thesis by (rule C2_isAdmin_in_reachable_sessions [OF r a])
qed

text \<open>
  The claim as stated fails: after initialization with a token that is not expired, a fetched
  administrator whose status is \<^verbatim>\<open>suspended\<close> makes \<^verbatim>\<open>isAdmin\<close> true and
  \<^verbatim>\<open>isAuthenticated\<close> false.
\<close>

theorem C2_counterexample:
  "reachable (initializeAuth future_exp 1700000000 (Resolved (account ''admin'' ''suspended''))
                (mounted (Some ''abc'')))
   \<and> isAdmin (initializeAuth future_exp 1700000000 (Resolved (account ''admin'' ''suspended''))
                (mounted (Some ''abc'')))
   \<and> \<not> isAuthenticated (initializeAuth future_exp 1700000000
                (Resolved (account ''admin'' ''suspended'')) (mounted (Some ''abc'')))"
proof -
  have "reachable (mounted (Some ''abc''))"
    by (rule reachable.mount) (simp_all add: mounted_def)
  then have "reachable (initializeAuth future_exp 1700000000
                (Resolved (account ''admin'' ''suspended'')) (mounted (Some ''abc'')))"
    by (rule reachable.step_initializeAuth)
  moreover have "initializeAuth future_exp 1700000000
                (Resolved (account ''admin'' ''suspended'')) (mounted (Some ''abc''))
     = \<lparr>localStorage_token = Some ''abc'', defaults_Authorization = Some ''Bearer abc'',
        currentUser = Some (account ''admin'' ''suspended''), isLoading = False,
        network = [Request ''GET'' ''/api/auth/user'' (Some ''Bearer abc'')]\<rparr>"
    by (simp add: initializeAuth_def future_exp_def mounted_def fetchUserData_Resolved)
  ultimately show ?thesis
    by (simp add: isAdmin_def isAuthenticated_def account_def)
qed

section \<open>Login\<close>

text \<open>
  Claim C5, as amended. A login answered with status 403 fails with the error
  \<^verbatim>\<open>Your account is pending approval\<close> whatever the body says, and changes neither the
  stored token nor the default credential nor the user. Any other failure fails with the
  server's message when there is a non-empty one and with the fixed credentials text
  otherwise; that error differs from the pending-approval error unless the server's own
  message is that very text.
\<close>

theorem C5_login_403_pending_approval:
  "(err_response e = Some r \<and> resp_status r = 403 \<longrightarrow>
      login email_in password (Rejected e) s
        = (Inl (Error ''Your account is pending approval''),
           s\<lparr>network := network s @
                [Request ''POST'' ''/api/auth/login'' (defaults_Authorization s)]\<rparr>))
   \<and> (err_response e = Some r \<and> resp_status r \<noteq> 403 \<longrightarrow>
        fst (login email_in password (Rejected e) s)
          = Inl (Error (case resp_message r of
                          None \<Rightarrow> ''Failed to login. Please check your credentials.''
                        | Some m \<Rightarrow>
                            if m \<noteq> [] then m
                            else ''Failed to login. Please check your credentials.'')))
   \<and> (err_response e = Some r \<and> resp_status r \<noteq> 403
        \<and> resp_message r \<noteq> Some ''Your account is pending approval'' \<longrightarrow>
        fst (login email_in password (Rejected e) s)
          \<noteq> Inl (Error ''Your account is pending approval''))
   \<and> (err_response e = None \<longrightarrow>
        fst (login email_in password (Rejected e) s)
          = Inl (Error ''Failed to login. Please check your credentials.''))"
  by (auto simp: login_def axios_request_Rejected response_interceptor_def
      split: option.splits)

theorem C5_witness:
  "login ''kim@lab.org'' ''pw'' (Rejected (answered 403 (Some ''Forbidden''))) (mounted None)
     = (Inl (Error ''Your account is pending approval''),
        \<lparr>localStorage_token = None, defaults_Authorization = None, currentUser = None,
         isLoading = True, network = [Request ''POST'' ''/api/auth/login'' None]\<rparr>)
   \<and> fst (login ''kim@lab.org'' ''pw'' (Rejected (answered 401 (Some ''Invalid credentials'')))
           (mounted None))
       \<noteq> Inl (Error ''Your account is pending approval'')"
  using C5_login_403_pending_approval
      [of "answered 403 (Some ''Forbidden'')" "\<lparr>resp_status = 403, resp_message = Some ''Forbidden''\<rparr>"
          "''kim@lab.org''" "''pw''" "mounted None"]
    C5_login_403_pending_approval
      [of "answered 401 (Some ''Invalid credentials'')"
          "\<lparr>resp_status = 401, resp_message = Some ''Invalid credentials''\<rparr>"
          "''kim@lab.org''" "''pw''" "mounted None"]
  by (simp add: answered_def mounted_def)

text \<open>
  The claim as stated fails: a 401 answer whose message is the pending-approval text gives
  the same error as a 403 answer.
\<close>

theorem C5_counterexample:
  "fst (login ''kim@lab.org'' ''pw''
          (Rejected (answered 401 (Some ''Your account is pending approval''))) (mounted None))
   = fst (login ''kim@lab.org'' ''pw'' (Rejected (answered 403 None)) (mounted None))"
  by (simp add: login_def axios_request_Rejected answered_def)

text \<open>
  Claim C6, as amended. A login that resolves with \<^verbatim>\<open>{token, user}\<close> stores the token,
  makes its bearer header the default credential, which the next request through the shared
  client carries, and holds the returned user; the session is authenticated exactly when
  that user's status is \<^verbatim>\<open>approved\<close>.
\<close>

theorem C6_login_success_stores_token:
  "login email_in password (Resolved d) s
     = (Inr (),
        s\<lparr>localStorage_token := Some (body_token d),
          defaults_Authorization := Some (''Bearer '' @ body_token d),
          currentUser := Some (body_user d),
          network := network s @
            [Request ''POST'' ''/api/auth/login'' (defaults_Authorization s)]\<rparr>)
   \<and> (isAuthenticated (snd (login email_in password (Resolved d) s))
        \<longleftrightarrow> status (body_user d) = ''approved'')
   \<and> network (snd (axios_request verb url None (res :: 'a axios_result)
                 (snd (login email_in password (Resolved d) s))))
       = network (snd (login email_in password (Resolved d) s))
           @ [Request verb url (Some (''Bearer '' @ body_token d))]"
  by (cases res)
     (simp_all add: login_def axios_request_Resolved axios_request_Rejected
        response_interceptor_def isAuthenticated_def)

text \<open>
  The claim as stated fails: a login that resolves with a user whose status is
  \<^verbatim>\<open>pending\<close> leaves the session unauthenticated.
\<close>

theorem C6_counterexample:
  "\<not> isAuthenticated (snd (login ''kim@lab.org'' ''pw''
        (Resolved \<lparr>body_token = ''abc'', body_user = account ''user'' ''pending''\<rparr>)
        (mounted None)))"
  by (simp add: login_def axios_request_Resolved isAuthenticated_def account_def)

section \<open>What the view functions do to the token\<close>









subsection \<open>The retry loop of the dashboard\<close>

declare retry_loop.simps [simp del]

lemma retry_loop_unfold:
  "snd (retry_loop token res n s) =
     (if n < maxRetries then
        (let s1 = snd (axios_request ''GET'' ''/api/dashboard/statistics''
                        (Some (''Bearer '' @ token)) (res n) s)
         in if res n = Resolved True \<or> unauthorized (res n) \<or> n + 1 = maxRetries then s1
            else snd (retry_loop token res (n + 1) s1))
      else s)"
  by (subst retry_loop.simps, cases "res n")
     (auto simp: axios_request_Resolved axios_request_Rejected unauthorized_def Let_def
        split: option.splits)




lemma snd_fetchDashboardData:
  "snd (fetchDashboardData res s) =
     (case localStorage_token s of
        None \<Rightarrow> s
      | Some token \<Rightarrow> if token = [] then s else snd (retry_loop token res 0 s))"
  by (auto simp: fetchDashboardData_def split: option.splits prod.splits sum.splits)



subsection \<open>All sixteen functions\<close>










text \<open>Against a server that cannot be reached the dashboard makes its three attempts.\<close>

lemma dashboard_three_attempts:
  "network (snd (fetchDashboardData no_answers (mounted (Some ''abc''))))
     = [Request ''GET'' ''/api/dashboard/statistics'' (Some ''Bearer abc''),
        Request ''GET'' ''/api/dashboard/statistics'' (Some ''Bearer abc''),
        Request ''GET'' ''/api/dashboard/statistics'' (Some ''Bearer abc'')]"
  by (simp add: snd_fetchDashboardData retry_loop_unfold maxRetries_def axios_request_Rejected
      response_interceptor_def unauthorized_def no_answers_def mounted_def)

end
